theory Spec2Isabelle
  imports Complex_Main "HOL-Library.Word"
begin

section \<open>Python strings\<close>

text \<open>
  A Python \<^verbatim>\<open>str\<close> is a sequence of Unicode code points. The engine's output and the
  reply texts contain CJK characters and full-width punctuation, so a string is modelled
  as the list of its code points. ASCII literals are written with \<open>asc\<close>.
\<close>

type_synonym pystr = "nat list"

definition asc :: "string \<Rightarrow> pystr" where
  "asc s = map of_char s"

text \<open>
  \<^verbatim>\<open>str.isspace\<close> for one code point; the regular expression class \<^verbatim>\<open>\s\<close> of a
  \<^verbatim>\<open>str\<close> pattern matches the same code points.
\<close>

definition isspace :: "nat \<Rightarrow> bool" where
  "isspace c \<longleftrightarrow>
     (9 \<le> c \<and> c \<le> 13) \<or> (28 \<le> c \<and> c \<le> 32) \<or> c = 133 \<or> c = 160 \<or> c = 5760 \<or>
     (8192 \<le> c \<and> c \<le> 8202) \<or> c = 8232 \<or> c = 8233 \<or> c = 8239 \<or> c = 8287 \<or>
     c = 12288"

text \<open>\<^verbatim>\<open>s.strip()\<close>: leading and trailing whitespace removed.\<close>

definition strip :: "pystr \<Rightarrow> pystr" where
  "strip s = rev (dropWhile isspace (rev (dropWhile isspace s)))"

text \<open>\<^verbatim>\<open>s.split(d)\<close> for a one-character separator: never an empty list.\<close>

fun split_on :: "nat \<Rightarrow> pystr \<Rightarrow> pystr list" where
  "split_on d [] = [[]]"
| "split_on d (c # cs) =
     (if c = d then [] # split_on d cs
      else (case split_on d cs of
              [] \<Rightarrow> [[c]]
            | x # xs \<Rightarrow> (c # x) # xs))"

text \<open>\<^verbatim>\<open>sep.join(parts)\<close>.\<close>

fun join :: "pystr \<Rightarrow> pystr list \<Rightarrow> pystr" where
  "join sep [] = []"
| "join sep [x] = x"
| "join sep (x # y # ys) = x @ sep @ join sep (y # ys)"

text \<open>
  \<^verbatim>\<open>s.replace(old, '')\<close> for a nonempty \<open>old\<close>: every non-overlapping occurrence,
  from the left, is removed.
\<close>

function remove_all :: "pystr \<Rightarrow> pystr \<Rightarrow> pystr" where
  "remove_all old [] = []"
| "remove_all old (c # cs) =
     (if old \<noteq> [] \<and> take (length old) (c # cs) = old
      then remove_all old (drop (length old) (c # cs))
      else c # remove_all old cs)"
  by pat_completeness auto
termination
  by (relation "measure (\<lambda>(old, s). length s)") auto

section \<open>The output sanitizer\<close>

text \<open>
  \<^verbatim>\<open>re.sub(r'\x1b\[[0-9;]*[a-zA-Z]', '', text)\<close>. At an ESC followed by \<open>[\<close> the
  greedy parameter run is skipped; the match succeeds when a letter follows it (the two
  classes are disjoint, so backtracking finds nothing else). Otherwise the character
  is kept and the scan moves on by one.
\<close>

definition is_ansi_param :: "nat \<Rightarrow> bool" where
  "is_ansi_param c \<longleftrightarrow> (48 \<le> c \<and> c \<le> 57) \<or> c = 59"

definition is_ascii_letter :: "nat \<Rightarrow> bool" where
  "is_ascii_letter c \<longleftrightarrow> (97 \<le> c \<and> c \<le> 122) \<or> (65 \<le> c \<and> c \<le> 90)"

definition ansi_match :: "pystr \<Rightarrow> pystr option" where
  "ansi_match s =
     (case s of
        e # b # rest \<Rightarrow>
          (if e = 27 \<and> b = 91 then
             (case dropWhile is_ansi_param rest of
                l # rest' \<Rightarrow> if is_ascii_letter l then Some rest' else None
              | [] \<Rightarrow> None)
           else None)
      | _ \<Rightarrow> None)"

text \<open>
  \<^verbatim>\<open>re.sub(r'\[.*?\]', '', text)\<close>. The dot does not match a newline, and the
  quantifier is lazy: an opening bracket matches up to the first closing bracket on the
  same line.
\<close>

definition bracket_match :: "pystr \<Rightarrow> pystr option" where
  "bracket_match s =
     (case s of
        b # rest \<Rightarrow>
          (if b = 91 then
             (case dropWhile (\<lambda>c. c \<noteq> 93 \<and> c \<noteq> 10) rest of
                l # rest' \<Rightarrow> if l = 93 then Some rest' else None
              | [] \<Rightarrow> None)
           else None)
      | [] \<Rightarrow> None)"

text \<open>
  \<^verbatim>\<open>re.sub(r'\n\s*\n', '\n', text)\<close>. After a newline the greedy \<^verbatim>\<open>\s*\<close> takes the
  whole whitespace run and backtracks to the last newline in it. \<open>after_last_newline\<close>
  returns what follows that newline, or \<open>None\<close> when the run holds no newline.
\<close>

fun after_last_newline :: "pystr \<Rightarrow> pystr option" where
  "after_last_newline [] = None"
| "after_last_newline (c # cs) =
     (if isspace c then
        (case after_last_newline cs of
           Some r \<Rightarrow> Some r
         | None \<Rightarrow> if c = 10 then Some cs else None)
      else None)"

definition blank_match :: "pystr \<Rightarrow> pystr option" where
  "blank_match s =
     (case s of
        n # rest \<Rightarrow> if n = 10 then after_last_newline rest else None
      | [] \<Rightarrow> None)"

text \<open>
  The scan of \<^verbatim>\<open>re.sub\<close> with a pattern that never matches the empty string: where
  the pattern matches, the match is replaced and the scan goes on behind it; elsewhere
  one character is copied. A matcher returns the rest of the text behind its match;
  a matcher that would not consume anything is treated as a failure, which none of the
  three matchers above ever is.
\<close>

function re_sub :: "(pystr \<Rightarrow> pystr option) \<Rightarrow> pystr \<Rightarrow> pystr \<Rightarrow> pystr" where
  "re_sub m repl [] = []"
| "re_sub m repl (c # cs) =
     (case m (c # cs) of
        Some rest \<Rightarrow>
          if length rest < length (c # cs) then repl @ re_sub m repl rest
          else c # re_sub m repl cs
      | None \<Rightarrow> c # re_sub m repl cs)"
  by pat_completeness auto
termination
  by (relation "measure (\<lambda>(m, repl, s). length s)") auto

text \<open>
  \<^verbatim>\<open>re.split\<close> on the class of sentence terminators, one or more: the text is cut at every maximal run of
  sentence-ending punctuation (ASCII and full-width full stop, exclamation mark and
  question mark); a run at the start or the end leaves an empty piece.
\<close>

definition is_terminator :: "nat \<Rightarrow> bool" where
  "is_terminator c \<longleftrightarrow> c = 46 \<or> c = 12290 \<or> c = 33 \<or> c = 65281 \<or> c = 63 \<or> c = 65311"

function re_split_sentences :: "pystr \<Rightarrow> pystr list" where
  "re_split_sentences [] = [[]]"
| "re_split_sentences (c # cs) =
     (if is_terminator c then [] # re_split_sentences (dropWhile is_terminator cs)
      else (case re_split_sentences cs of
              [] \<Rightarrow> [[c]]
            | x # xs \<Rightarrow> (c # x) # xs))"
  by pat_completeness auto
termination
  by (relation "measure length") (auto simp: length_dropWhile_le less_Suc_eq_le)

text \<open>
  The loop at the end of \<^verbatim>\<open>_clean_whisper_output\<close>: \<open>seen\<close> is the set of sentences
  already kept, \<open>cleaned_sentences\<close> the list built so far.
\<close>

fun keep_new :: "pystr list \<Rightarrow> pystr set \<Rightarrow> pystr list \<Rightarrow> pystr list" where
  "keep_new [] seen cleaned_sentences = cleaned_sentences"
| "keep_new (s # ss) seen cleaned_sentences =
     (let s' = strip s in
      if s' \<noteq> [] \<and> s' \<notin> seen
      then keep_new ss (insert s' seen) (cleaned_sentences @ [s'])
      else keep_new ss seen cleaned_sentences)"

definition clean_whisper_output :: "pystr \<Rightarrow> pystr list" where
  "clean_whisper_output text0 =
     (let text1 = re_sub ansi_match [] text0;
          text2 = re_sub bracket_match [] text1;
          text3 = re_sub blank_match [10] text2;
          text4 = strip text3;
          lines = map strip (split_on 10 text4);
          text5 = join [32] (filter (\<lambda>line. line \<noteq> []) lines);
          sentences = re_split_sentences text5
      in keep_new sentences {} [])"

text \<open>
  Two parts of \<^verbatim>\<open>_clean_whisper_output\<close> by themselves, for statements about its
  result: the text as it stands before it is split (lines 256 to 269), and the
  candidate sentences that the final loop goes through, that is the pieces of the
  split, each trimmed, the empty ones left out (lines 274, 280 and 281).
\<close>

definition flattened_text :: "pystr \<Rightarrow> pystr" where
  "flattened_text text0 =
     (let text1 = re_sub ansi_match [] text0;
          text2 = re_sub bracket_match [] text1;
          text3 = re_sub blank_match [10] text2;
          text4 = strip text3;
          lines = map strip (split_on 10 text4)
      in join [32] (filter (\<lambda>line. line \<noteq> []) lines))"

definition candidate_sentences :: "pystr \<Rightarrow> pystr list" where
  "candidate_sentences t =
     filter (\<lambda>s. s \<noteq> []) (map strip (re_split_sentences (flattened_text t)))"

text \<open>
  What the specification asks of the deduplication, written without the loop: of a
  list, the entries that do not occur at an earlier position, in the order of the list.
\<close>

definition first_occurrences :: "'a list \<Rightarrow> 'a list" where
  "first_occurrences xs =
     map (\<lambda>i. xs ! i) (filter (\<lambda>i. xs ! i \<notin> set (take i xs)) [0..<length xs])"

section \<open>The engine and the two service calls\<close>

text \<open>
  The recognition engine is an external program. One run of it is given by its result:
  either the process ran and left a return code, its standard output and its standard
  error (as the strings that \<^verbatim>\<open>subprocess\<close> hands to Python), or \<^verbatim>\<open>subprocess\<close>
  raised before any return code (the executable is missing, say); then the result
  carries the text of that exception.
\<close>

datatype engine_result =
    Exited int pystr pystr
  | SpawnError pystr

text \<open>The message prefixes of the service, as code points.\<close>

definition whisper_failed :: pystr where
  "whisper_failed = asc ''Whisper'' @ [22788, 29702, 22833, 36133, 58, 32]"

definition audio_failed :: pystr where
  "audio_failed = [38899, 39057, 22788, 29702, 22833, 36133, 58, 32]"

definition whisper_failed_code :: pystr where
  "whisper_failed_code =
     asc ''Whisper'' @ [22788, 29702, 22833, 36133, 32, 40, 36820, 22238, 30721, 58, 32]"

definition audio_missing :: pystr where
  "audio_missing = [38899, 39057, 25991, 20214, 19981, 23384, 22312, 58, 32]"

definition model_missing :: pystr where
  "model_missing = [27169, 22411, 25991, 20214, 19981, 23384, 22312, 58, 32]"

definition no_speech_message :: pystr where
  "no_speech_message = [26410, 26816, 27979, 21040, 35821, 38899, 20869, 23481]"

definition blank_audio_message :: pystr where
  "blank_audio_message = [26816, 27979, 21040, 31354, 30333, 38899, 39057]"

definition blank_audio_token :: pystr where
  "blank_audio_token = asc ''[BLANK_AUDIO]''"

text \<open>
  \<^verbatim>\<open>VoiceService.process_stream\<close>. \<open>Inl msg\<close> stands for the \<^verbatim>\<open>RuntimeError(msg)\<close> it
  raises: \<^verbatim>\<open>subprocess.run(..., check=True)\<close> raises on a nonzero return code, and the
  handler wraps the captured standard error; any other exception is wrapped with its
  text. On success the trimmed standard output goes through the sanitizer.
\<close>

definition process_stream :: "engine_result \<Rightarrow> pystr + pystr list" where
  "process_stream r =
     (case r of
        Exited returncode out err \<Rightarrow>
          if returncode \<noteq> 0 then Inl (whisper_failed @ err)
          else Inr (clean_whisper_output (strip out))
      | SpawnError msg \<Rightarrow> Inl (audio_failed @ msg))"

text \<open>\<^verbatim>\<open>str(n)\<close> of an integer, and \<^verbatim>\<open>os.path.join(a, b)\<close> on POSIX.\<close>

fun decimal :: "nat \<Rightarrow> pystr" where
  "decimal n = (if n < 10 then [48 + n] else decimal (n div 10) @ [48 + n mod 10])"

declare decimal.simps [simp del]

definition str_int :: "int \<Rightarrow> pystr" where
  "str_int i = (if i < 0 then 45 # decimal (nat (- i)) else decimal (nat i))"

definition path_join :: "pystr \<Rightarrow> pystr \<Rightarrow> pystr" where
  "path_join a b =
     (if b \<noteq> [] \<and> hd b = 47 then b
      else if a = [] \<or> last a = 47 then a @ b
      else a @ [47] @ b)"

definition whisper_path :: pystr where
  "whisper_path = asc ''/home/huiyu/whisper.cpp''"

definition output_dir :: pystr where
  "output_dir = asc ''outputs''"

text \<open>
  \<^verbatim>\<open>VoiceService.process_audio\<close>, the single-shot call that \<^verbatim>\<open>listen\<close> uses. The file
  system is the set \<open>fs\<close> of paths that exist. Every exception raised in the body,
  the one for a nonzero return code included, is caught by the outer handler and raised
  again as \<^verbatim>\<open>RuntimeError\<close> with the prefix \<open>audio_failed\<close>; \<open>Inl\<close> carries its
  message. The check of the WAV header only prints: its own handler swallows what it
  raises. After a successful run the trimmed output is compared with the empty string
  and with the blank-audio token before the token is removed from the text.
\<close>

definition process_audio :: "pystr set \<Rightarrow> pystr \<Rightarrow> pystr \<Rightarrow> engine_result \<Rightarrow> pystr + pystr" where
  "process_audio fs wav_file model_name r =
     (if wav_file \<notin> fs then Inl (audio_failed @ audio_missing @ wav_file)
      else
        let model_path = path_join (path_join whisper_path (asc ''models'')) model_name in
        if model_path \<notin> fs then Inl (audio_failed @ model_missing @ model_path)
        else
          (case r of
             SpawnError msg \<Rightarrow> Inl (audio_failed @ msg)
           | Exited returncode out err \<Rightarrow>
               if returncode \<noteq> 0
               then Inl (audio_failed @ whisper_failed_code @ str_int returncode @ asc ''): '' @ err)
               else
                 let text1 = strip out in
                 if text1 = [] then Inr no_speech_message
                 else if text1 = blank_audio_token then Inr blank_audio_message
                 else Inr (strip (remove_all blank_audio_token text1))))"

section \<open>The upload operation\<close>

text \<open>
  Python values are typed at run time. \<^verbatim>\<open>recognize_audio\<close> applies string operations
  to what \<^verbatim>\<open>process_stream\<close> returns, so the model keeps the run-time type: a value
  is a string or a list of strings, \<^verbatim>\<open>not v\<close> tests emptiness of either, \<^verbatim>\<open>v.strip()\<close>
  exists for a string only, and the response model accepts only a string as its text.
\<close>

datatype pyval = PyStr pystr | PyList "pystr list"

datatype py_error =
    ValueError
  | AttributeError
  | ValidationError
  | OSError
  | HTTPException nat

fun truthy :: "pyval \<Rightarrow> bool" where
  "truthy (PyStr s) = (s \<noteq> [])"
| "truthy (PyList l) = (l \<noteq> [])"

fun py_strip :: "pyval \<Rightarrow> py_error + pystr" where
  "py_strip (PyStr s) = Inr (strip s)"
| "py_strip (PyList l) = Inl AttributeError"

fun str_field :: "pyval \<Rightarrow> py_error + pystr" where
  "str_field (PyStr s) = Inr s"
| "str_field (PyList l) = Inl ValidationError"

record recognition_response =
  response_text :: pystr
  response_duration :: rat
  response_status :: pystr

text \<open>
  Lines 132 to 145 of \<^verbatim>\<open>main.py\<close>: the reply built from the result of the call.
  \<^verbatim>\<open>not result or not result.strip()\<close> evaluates the second test only when the first
  is false.
\<close>

definition build_response :: "pyval \<Rightarrow> rat \<Rightarrow> py_error + recognition_response" where
  "build_response result duration =
     (if \<not> truthy result
      then Inr \<lparr>response_text = [], response_duration = duration,
                response_status = asc ''no_text''\<rparr>
      else
        (case py_strip result of
           Inl err \<Rightarrow> Inl err
         | Inr stripped \<Rightarrow>
             if stripped = []
             then Inr \<lparr>response_text = [], response_duration = duration,
                       response_status = asc ''no_text''\<rparr>
             else
               (case str_field result of
                  Inl err \<Rightarrow> Inl err
                | Inr t \<Rightarrow> Inr \<lparr>response_text = t, response_duration = duration,
                                response_status = asc ''success''\<rparr>)))"

text \<open>
  Writing a file either succeeds, or raises; \<open>WriteFailed created\<close> says whether the
  file had been created when the exception was raised (a full disk fails after the
  file was opened).
\<close>

datatype write_result = WriteOk | WriteFailed bool

definition temp_file_name :: "nat \<Rightarrow> pystr" where
  "temp_file_name t = path_join output_dir (asc ''temp_'' @ decimal t @ asc ''.raw'')"

record upload_env =
  upload_time :: nat
  upload_save :: write_result
  upload_engine :: engine_result
  upload_elapsed :: rat

text \<open>
  \<^verbatim>\<open>recognize_audio\<close>. \<open>upload_time\<close> is \<^verbatim>\<open>int(time.time())\<close>, \<open>upload_elapsed\<close> the
  measured duration of the call (a float in the source; its value is not computed
  with). Every exception inside the outer \<^verbatim>\<open>try\<close> ends as an HTTP error with status
  500, whose detail text is not modelled. The \<^verbatim>\<open>finally\<close> clause removes the temporary
  file when it exists; removing is taken to succeed. The result is the reply or the
  error, and the file system left behind.
\<close>

definition recognize_audio ::
  "pystr set \<Rightarrow> upload_env \<Rightarrow> (py_error + recognition_response) \<times> pystr set" where
  "recognize_audio fs e =
     (let temp_file = temp_file_name (upload_time e) in
      case upload_save e of
        WriteFailed created \<Rightarrow>
          (Inl (HTTPException 500), (if created then insert temp_file fs else fs) - {temp_file})
      | WriteOk \<Rightarrow>
          (let fs1 = insert temp_file fs;
               reply =
                 (case process_stream (upload_engine e) of
                    Inl msg \<Rightarrow> Inl (HTTPException 500)
                  | Inr result \<Rightarrow>
                      (case build_response (PyList result) (upload_elapsed e) of
                         Inl err \<Rightarrow> Inl (HTTPException 500)
                       | Inr response \<Rightarrow> Inr response))
           in (reply, fs1 - {temp_file})))"

section \<open>Floating-point values\<close>

text \<open>
  The volume and the accumulated duration are IEEE-754 doubles. A double is modelled
  as a rational, an infinity or NaN. The rounding of every finite result is the
  parameter \<open>rnd\<close> of the operations; no theorem below assumes anything about it
  beyond what its statement says, so each holds for round-to-nearest in particular.
  Overflow of a finite result to an infinity is left out: the quotients are quotients
  of 32-bit integers, and no sum of fewer than \<open>2 ^ 990\<close> of them overflows. Dividing
  NumPy integers by zero does not raise: it gives an infinity, or NaN for \<open>0 / 0\<close>.
  Every comparison with NaN is false.
\<close>

datatype pyfloat = Finite rat | PInf | NInf | NaN

definition true_divide :: "(rat \<Rightarrow> rat) \<Rightarrow> int \<Rightarrow> int \<Rightarrow> pyfloat" where
  "true_divide rnd a b =
     (if b = 0 then (if a = 0 then NaN else if 0 < a then PInf else NInf)
      else Finite (rnd (of_int a / of_int b)))"

fun float_add :: "(rat \<Rightarrow> rat) \<Rightarrow> pyfloat \<Rightarrow> pyfloat \<Rightarrow> pyfloat" where
  "float_add rnd (Finite x) (Finite y) = Finite (rnd (x + y))"
| "float_add rnd NaN y = NaN"
| "float_add rnd x NaN = NaN"
| "float_add rnd PInf NInf = NaN"
| "float_add rnd NInf PInf = NaN"
| "float_add rnd PInf y = PInf"
| "float_add rnd x PInf = PInf"
| "float_add rnd NInf y = NInf"
| "float_add rnd x NInf = NInf"

fun float_lt :: "pyfloat \<Rightarrow> pyfloat \<Rightarrow> bool" where
  "float_lt (Finite x) (Finite y) = (x < y)"
| "float_lt NaN y = False"
| "float_lt x NaN = False"
| "float_lt PInf y = False"
| "float_lt x NInf = False"
| "float_lt x PInf = True"
| "float_lt NInf y = True"

fun float_ge :: "pyfloat \<Rightarrow> pyfloat \<Rightarrow> bool" where
  "float_ge (Finite x) (Finite y) = (y \<le> x)"
| "float_ge NaN y = False"
| "float_ge x NaN = False"
| "float_ge PInf y = True"
| "float_ge x NInf = True"
| "float_ge x PInf = False"
| "float_ge NInf y = False"

section \<open>Frames\<close>

text \<open>
  An inbound binary message is a list of bytes. \<^verbatim>\<open>np.frombuffer\<close> raises
  \<^verbatim>\<open>ValueError\<close> when the length of the buffer is not a multiple of the item size, and
  reads the items in the byte order of the host, taken to be little-endian here.
\<close>

type_synonym byte = "8 word"

fun int32s :: "byte list \<Rightarrow> 32 word list" where
  "int32s (a # b # c # d # rest) =
     (ucast a + 256 * ucast b + 65536 * ucast c + 16777216 * ucast d) # int32s rest"
| "int32s rest = []"

fun int16s :: "byte list \<Rightarrow> 16 word list" where
  "int16s (a # b # rest) = (ucast a + 256 * ucast b) # int16s rest"
| "int16s rest = []"

definition frombuffer_int32 :: "byte list \<Rightarrow> py_error + 32 word list" where
  "frombuffer_int32 buf = (if length buf mod 4 \<noteq> 0 then Inl ValueError else Inr (int32s buf))"

definition frombuffer_int16 :: "byte list \<Rightarrow> py_error + 16 word list" where
  "frombuffer_int16 buf = (if length buf mod 2 \<noteq> 0 then Inl ValueError else Inr (int16s buf))"

record frame =
  sample_rate :: "32 word"
  num_samples :: "32 word"
  audio_data :: "16 word list"

text \<open>
  Lines 209 to 211 of \<^verbatim>\<open>main.py\<close>. Unpacking the header into two names raises
  \<^verbatim>\<open>ValueError\<close> unless it has exactly two items. The header fields are signed
  (\<^verbatim>\<open>np.int32\<close>), and nothing compares \<open>num_samples\<close> with the number of samples that
  follow.
\<close>

definition decode_frame :: "byte list \<Rightarrow> py_error + frame" where
  "decode_frame data =
     (case frombuffer_int32 (take 8 data) of
        Inl err \<Rightarrow> Inl err
      | Inr header \<Rightarrow>
          (case header of
             [rate, count] \<Rightarrow>
               (case frombuffer_int16 (drop 8 data) of
                  Inl err \<Rightarrow> Inl err
                | Inr samples \<Rightarrow>
                    Inr \<lparr>sample_rate = rate, num_samples = count, audio_data = samples\<rparr>)
           | _ \<Rightarrow> Inl ValueError))"

text \<open>
  \<^verbatim>\<open>np.abs\<close> on 16-bit integers wraps: the absolute value of \<open>-32768\<close> is \<open>-32768\<close>.
  \<^verbatim>\<open>.mean()\<close> adds the items as doubles, which is exact for fewer than \<open>2 ^ 38\<close>
  samples, and divides once; the mean of no items is NaN (with a warning, not an
  exception).
\<close>

definition np_abs :: "16 word \<Rightarrow> 16 word" where
  "np_abs w = (if sint w < 0 then - w else w)"

definition mean_abs :: "(rat \<Rightarrow> rat) \<Rightarrow> 16 word list \<Rightarrow> pyfloat" where
  "mean_abs rnd samples =
     (if samples = [] then NaN
      else Finite (rnd (of_int (sum_list (map (\<lambda>w. sint (np_abs w)) samples))
                        / of_nat (length samples))))"

text \<open>\<^verbatim>\<open>num_samples / sample_rate\<close> of a frame.\<close>

definition declared_duration :: "(rat \<Rightarrow> rat) \<Rightarrow> frame \<Rightarrow> pyfloat" where
  "declared_duration rnd f = true_divide rnd (sint (num_samples f)) (sint (sample_rate f))"

section \<open>The streaming session\<close>

text \<open>
  The two variables of a session, \<open>audio_buffer\<close> and \<open>buffer_duration\<close>. The third
  field, \<open>held_frames\<close>, is a history variable that the source does not have: it
  keeps, for each array in \<open>audio_buffer\<close>, the frame the array came from, header
  included. It is written wherever \<open>audio_buffer\<close> is written and read nowhere in the
  model of the code; only statements about the frames held in the buffer use it.
\<close>

record session =
  audio_buffer :: "16 word list list"
  buffer_duration :: pyfloat
  held_frames :: "frame list"

definition initial_session :: session where
  "initial_session = \<lparr>audio_buffer = [], buffer_duration = Finite 0, held_frames = []\<rparr>"

definition MIN_DURATION :: pyfloat where
  "MIN_DURATION = Finite 2"

record reply =
  reply_status :: pystr
  reply_text :: pystr

definition no_text_message :: pystr where
  "no_text_message = [26410, 35782, 21035, 21040, 25991, 26412]"

definition processing_error :: pystr where
  "processing_error = [22788, 29702, 38169, 35823, 58, 32]"

text \<open>
  What one pass of the loop body needs from outside: the clock, what writing the
  temporary file does, and what the engine does.
\<close>

record env =
  clock :: nat
  tofile :: write_result
  engine :: engine_result

text \<open>
  How a pass ends: \<open>Continue\<close> at the top of the loop, awaiting the next message;
  \<open>Break\<close> after \<^verbatim>\<open>WebSocketDisconnect\<close>; \<open>Raised\<close> with any other exception, which
  leaves the loop, is logged by the handler around it and ends the task.
\<close>

datatype control = Continue | Break | Raised py_error

text \<open>
  The result of a pass: how it ended, the session variables, the replies sent to the
  peer in order, the calls of \<^verbatim>\<open>process_stream\<close> (the path handed over and the samples
  written to it) and the file system.
\<close>

record outcome =
  ctl :: control
  after :: session
  sent :: "reply list"
  invoked :: "(pystr \<times> 16 word list) list"
  disk :: "pystr set"

text \<open>
  Lines 246 to 267: the replies for the result of the call. Sending and removing the
  temporary file are taken to succeed; a peer that has gone is the event \<open>Disconnect\<close>.
\<close>

definition flush_replies :: "pystr + pystr list \<Rightarrow> reply list" where
  "flush_replies res =
     (case res of
        Inr result \<Rightarrow>
          if result \<noteq> []
          then map (\<lambda>sentence. \<lparr>reply_status = asc ''success'', reply_text = sentence\<rparr>)
                 (filter (\<lambda>sentence. sentence \<noteq> []) result)
          else [\<lparr>reply_status = asc ''no_text'', reply_text = no_text_message\<rparr>]
      | Inl msg \<Rightarrow> [\<lparr>reply_status = asc ''error'', reply_text = processing_error @ msg\<rparr>])"

text \<open>
  Lines 226 to 276, entered once the duration has reached the minimum. The arrays are
  concatenated; \<^verbatim>\<open>.max()\<close> of an empty array raises \<^verbatim>\<open>ValueError\<close>, outside any handler
  of the loop body. So does a failure of \<^verbatim>\<open>tofile\<close>, which stands before the \<^verbatim>\<open>try\<close>.
  After a successful write the engine is called once; whatever it does, a reply is
  sent, the \<^verbatim>\<open>finally\<close> clause removes the file, and both session variables are reset.
\<close>

definition flush :: "session \<Rightarrow> pystr set \<Rightarrow> env \<Rightarrow> outcome" where
  "flush s fs e =
     (let combined_audio = concat (audio_buffer s) in
      if combined_audio = []
      then \<lparr>ctl = Raised ValueError, after = s, sent = [], invoked = [], disk = fs\<rparr>
      else
        let temp_file = temp_file_name (clock e) in
        (case tofile e of
           WriteFailed created \<Rightarrow>
             \<lparr>ctl = Raised OSError, after = s, sent = [], invoked = [],
              disk = (if created then insert temp_file fs else fs)\<rparr>
         | WriteOk \<Rightarrow>
             \<lparr>ctl = Continue, after = initial_session,
              sent = flush_replies (process_stream (engine e)),
              invoked = [(temp_file, combined_audio)],
              disk = insert temp_file fs - {temp_file}\<rparr>))"

datatype event = Bytes "byte list" | Disconnect

text \<open>
  One pass of the loop body of \<^verbatim>\<open>process_audio\<close> in \<^verbatim>\<open>websocket_endpoint\<close>, lines 207
  to 280, for the message or disconnect that \<^verbatim>\<open>receive_bytes\<close> delivers.
\<close>

definition ws_process_audio_pass ::
  "(rat \<Rightarrow> rat) \<Rightarrow> session \<Rightarrow> pystr set \<Rightarrow> env \<Rightarrow> event \<Rightarrow> outcome" where
  "ws_process_audio_pass rnd s fs e ev =
     (case ev of
        Disconnect \<Rightarrow> \<lparr>ctl = Break, after = s, sent = [], invoked = [], disk = fs\<rparr>
      | Bytes data \<Rightarrow>
          (case decode_frame data of
             Inl err \<Rightarrow> \<lparr>ctl = Raised err, after = s, sent = [], invoked = [], disk = fs\<rparr>
           | Inr f \<Rightarrow>
               let volume = mean_abs rnd (audio_data f) in
               if float_lt volume (Finite 500)
               then \<lparr>ctl = Continue, after = s, sent = [], invoked = [], disk = fs\<rparr>
               else
                 let s1 = \<lparr>audio_buffer = audio_buffer s @ [audio_data f],
                           buffer_duration =
                             float_add rnd (buffer_duration s)
                               (declared_duration rnd f),
                           held_frames = held_frames s @ [f]\<rparr>
                 in
                 if float_ge (buffer_duration s1) MIN_DURATION then flush s1 fs e
                 else \<lparr>ctl = Continue, after = s1, sent = [], invoked = [], disk = fs\<rparr>))"

text \<open>
  The loop, run on the events that arrive, each with the environment of its pass.
  When the events are used up the loop stands at \<^verbatim>\<open>receive_bytes\<close> again: the result
  has \<open>ctl = Continue\<close> and the session variables of that moment. The replies and the
  engine calls of all passes are collected in order.
\<close>

fun ws_process_audio ::
  "(rat \<Rightarrow> rat) \<Rightarrow> session \<Rightarrow> pystr set \<Rightarrow> (event \<times> env) list \<Rightarrow> outcome" where
  "ws_process_audio rnd s fs [] =
     \<lparr>ctl = Continue, after = s, sent = [], invoked = [], disk = fs\<rparr>"
| "ws_process_audio rnd s fs ((ev, e) # rest) =
     (let r = ws_process_audio_pass rnd s fs e ev in
      case ctl r of
        Continue \<Rightarrow>
          (let r' = ws_process_audio rnd (after r) (disk r) rest
           in r'\<lparr>sent := sent r @ sent r', invoked := invoked r @ invoked r'\<rparr>)
      | Break \<Rightarrow> r
      | Raised err \<Rightarrow> r)"

text \<open>
  The sum of the declared durations of the frames held, added from the left as the
  loop adds them, starting from the integer zero.
\<close>

definition held_duration :: "(rat \<Rightarrow> rat) \<Rightarrow> frame list \<Rightarrow> pyfloat" where
  "held_duration rnd fs = foldl (float_add rnd) (Finite 0) (map (declared_duration rnd) fs)"

text \<open>
  What holds of the session variables whenever the loop awaits a message: the duration
  is below the minimum or is NaN, it is the sum over the frames held, and the buffer
  holds the sample arrays of exactly those frames, in order.
\<close>

definition session_inv :: "(rat \<Rightarrow> rat) \<Rightarrow> session \<Rightarrow> bool" where
  "session_inv rnd s \<longleftrightarrow>
     (float_lt (buffer_duration s) MIN_DURATION \<or> buffer_duration s = NaN)
     \<and> buffer_duration s = held_duration rnd (held_frames s)
     \<and> audio_buffer s = map audio_data (held_frames s)"

section \<open>Example inputs\<close>


definition one_second_frame :: "byte list" where
  "one_second_frame = [1, 0, 0, 0, 1, 0, 0, 0, 0xE8, 3]"

definition two_second_frame :: "byte list" where
  "two_second_frame = [1, 0, 0, 0, 2, 0, 0, 0, 0xE8, 3]"

definition quiet_frame :: "byte list" where
  "quiet_frame = [0x80, 0x3E, 0, 0, 0x40, 0x1F, 0, 0, 100, 0]"

definition empty_two_second_frame :: "byte list" where
  "empty_two_second_frame = [1, 0, 0, 0, 2, 0, 0, 0]"

definition zero_header_frame :: "byte list" where
  "zero_header_frame = [0, 0, 0, 0, 0, 0, 0, 0, 0xE8, 3]"

text \<open>Environments: all is well; the engine exits with code 1; the disk is full.\<close>

definition working_env :: env where
  "working_env = \<lparr>clock = 0, tofile = WriteOk, engine = Exited 0 (asc ''Hi. Hi. Bye.'') []\<rparr>"

definition failing_env :: env where
  "failing_env = \<lparr>clock = 0, tofile = WriteOk, engine = Exited 1 [] (asc ''no model'')\<rparr>"

definition full_disk_env :: env where
  "full_disk_env = \<lparr>clock = 0, tofile = WriteFailed True, engine = Exited 0 [] []\<rparr>"

text \<open>Uploads on which the engine prints a sentence, and the blank-audio token.\<close>

definition hello_upload :: upload_env where
  "hello_upload = \<lparr>upload_time = 0, upload_save = WriteOk,
                    upload_engine = Exited 0 (asc ''hello world'') [], upload_elapsed = 1\<rparr>"

definition blank_upload :: upload_env where
  "blank_upload = \<lparr>upload_time = 0, upload_save = WriteOk,
                    upload_engine = Exited 0 (asc ''[BLANK_AUDIO]'') [], upload_elapsed = 1\<rparr>"

section \<open>Sanitizer properties\<close>

lemma keep_new_distinct:
  "distinct acc \<Longrightarrow> set acc \<subseteq> seen \<Longrightarrow> distinct (keep_new ss seen acc)"
proof (induction ss arbitrary: seen acc)
  case Nil
  then show ?case by simp
next
  case (Cons s ss)
  show ?case
  proof (cases "strip s \<noteq> [] \<and> strip s \<notin> seen")
    case True
    have d: "distinct (acc @ [strip s])"
      using Cons.prems True by auto
    have sub: "set (acc @ [strip s]) \<subseteq> insert (strip s) seen"
      using Cons.prems by auto
    show ?thesis
      using True Cons.IH [OF d sub] by (simp add: Let_def)
  next
    case False
    then show ?thesis
      using Cons.IH [OF Cons.prems] by (auto simp: Let_def)
  qed
qed

lemmas sanitizer_defs =
  clean_whisper_output_def asc_def ansi_match_def bracket_match_def blank_match_def
  strip_def isspace_def is_terminator_def Let_def

lemma first_occurrences_Nil: "first_occurrences [] = []"
  by (simp add: first_occurrences_def)

lemma first_occurrences_snoc:
  "first_occurrences (xs @ [x]) = first_occurrences xs @ (if x \<in> set xs then [] else [x])"
proof -
  have u: "[0..<length (xs @ [x])] = [0..<length xs] @ [length xs]"
    by simp
  have f: "filter (\<lambda>i. (xs @ [x]) ! i \<notin> set (take i (xs @ [x]))) [0..<length xs]
         = filter (\<lambda>i. xs ! i \<notin> set (take i xs)) [0..<length xs]"
    by (rule filter_cong) (auto simp: nth_append)
  have m: "map (\<lambda>i. (xs @ [x]) ! i) (filter (\<lambda>i. xs ! i \<notin> set (take i xs)) [0..<length xs])
         = map (\<lambda>i. xs ! i) (filter (\<lambda>i. xs ! i \<notin> set (take i xs)) [0..<length xs])"
    by (rule map_cong) (auto simp: nth_append)
  have l: "map (\<lambda>i. (xs @ [x]) ! i)
             (filter (\<lambda>i. (xs @ [x]) ! i \<notin> set (take i (xs @ [x]))) [length xs])
         = (if x \<in> set xs then [] else [x])"
    by simp
  show ?thesis
    unfolding first_occurrences_def u filter_append map_append f m l by (rule refl)
qed

lemma remdups_snoc: "remdups (ys @ [x]) = filter (\<lambda>y. y \<noteq> x) (remdups ys) @ [x]"
  by (induction ys) auto

lemma first_occurrences_rev_remdups: "first_occurrences xs = rev (remdups (rev xs))"
  by (induction xs rule: rev_induct) (simp_all add: first_occurrences_Nil first_occurrences_snoc)

lemma first_occurrences_Cons:
  "first_occurrences (x # xs) = x # filter (\<lambda>y. y \<noteq> x) (first_occurrences xs)"
  by (simp add: first_occurrences_rev_remdups remdups_snoc rev_filter)

text \<open>
  The loop, from any set \<open>seen\<close> and any list built so far: it appends the first
  occurrences of the trimmed, nonempty sentences that are not in \<open>seen\<close>.
\<close>

lemma keep_new_first_occurrences:
  "keep_new ss seen acc =
     acc @ filter (\<lambda>x. x \<notin> seen)
             (first_occurrences (filter (\<lambda>s. s \<noteq> []) (map strip ss)))"
proof (induction ss arbitrary: seen acc)
  case Nil
  then show ?case by (simp add: first_occurrences_Nil)
next
  case (Cons s ss)
  let ?r = "first_occurrences (filter (\<lambda>s. s \<noteq> []) (map strip ss))"
  show ?case
  proof (cases "strip s = []")
    case True
    then show ?thesis by (simp add: Cons.IH Let_def)
  next
    case ne: False
    show ?thesis
    proof (cases "strip s \<in> seen")
      case True
      have "filter (\<lambda>x. x \<notin> seen) (filter (\<lambda>y. y \<noteq> strip s) ?r)
          = filter (\<lambda>x. x \<notin> seen) ?r"
        using True by (auto intro: filter_cong)
      with ne True show ?thesis
        by (simp add: Cons.IH Let_def first_occurrences_Cons)
    next
      case False
      have "filter (\<lambda>x. x \<notin> insert (strip s) seen) ?r
          = filter (\<lambda>x. x \<notin> seen) (filter (\<lambda>y. y \<noteq> strip s) ?r)"
        by (auto intro: filter_cong)
      with ne False show ?thesis
        by (simp add: Cons.IH Let_def first_occurrences_Cons)
    qed
  qed
qed

lemma clean_whisper_output_candidates:
  "clean_whisper_output t = first_occurrences (candidate_sentences t)"
  by (simp add: clean_whisper_output_def candidate_sentences_def flattened_text_def
      keep_new_first_occurrences Let_def)

text \<open>
  C9. The sanitizer drops repeated sentences and keeps the first occurrences in order.
  \<open>Hi. Hi. Bye.\<close> gives exactly \<open>Hi\<close>, \<open>Bye\<close>, and so does \<open>Hi. Bye. Hi.\<close>, whose
  candidate sentences are \<open>Hi\<close>, \<open>Bye\<close>, \<open>Hi\<close>: the later duplicate is the one
  dropped. For every input the result is the list of those candidate sentences that do
  not occur at an earlier position, in their order; so every candidate sentence is in
  the result, nothing else is, and no string occurs in it twice.
\<close>

theorem clean_whisper_output_dedup:
  "clean_whisper_output (asc ''Hi. Hi. Bye.'') = [asc ''Hi'', asc ''Bye'']
   \<and> clean_whisper_output (asc ''Hi. Bye. Hi.'') = [asc ''Hi'', asc ''Bye'']
   \<and> candidate_sentences (asc ''Hi. Bye. Hi.'') = [asc ''Hi'', asc ''Bye'', asc ''Hi'']
   \<and> clean_whisper_output t = first_occurrences (candidate_sentences t)
   \<and> set (clean_whisper_output t) = set (candidate_sentences t)
   \<and> distinct (clean_whisper_output t)"
proof -
  have a: "clean_whisper_output (asc ''Hi. Hi. Bye.'') = [asc ''Hi'', asc ''Bye'']"
    by (simp add: sanitizer_defs)
  have b: "clean_whisper_output (asc ''Hi. Bye. Hi.'') = [asc ''Hi'', asc ''Bye'']"
    by (simp add: sanitizer_defs)
  have c: "candidate_sentences (asc ''Hi. Bye. Hi.'') = [asc ''Hi'', asc ''Bye'', asc ''Hi'']"
    by (simp add: candidate_sentences_def flattened_text_def sanitizer_defs)
  have d: "clean_whisper_output t = first_occurrences (candidate_sentences t)"
    by (rule clean_whisper_output_candidates)
  have e: "set (clean_whisper_output t) = set (candidate_sentences t)"
    by (simp add: d first_occurrences_rev_remdups)
  have f: "distinct (clean_whisper_output t)"
    by (simp add: d first_occurrences_rev_remdups)
  from a b c d e f show ?thesis by blast
qed

section \<open>The upload operation: properties\<close>

lemma build_response_list:
  "build_response (PyList result) d =
     (if result = []
      then Inr \<lparr>response_text = [], response_duration = d, response_status = asc ''no_text''\<rparr>
      else Inl AttributeError)"
  by (simp add: build_response_def)

lemma recognize_audio_sentences:
  assumes "upload_save e = WriteOk"
      and "process_stream (upload_engine e) = Inr result"
      and "result \<noteq> []"
  shows "fst (recognize_audio fs e) = Inl (HTTPException 500)"
  using assms by (simp add: recognize_audio_def build_response_list Let_def)

lemma recognize_audio_no_sentences:
  assumes "upload_save e = WriteOk"
      and "process_stream (upload_engine e) = Inr []"
  shows "fst (recognize_audio fs e) =
           Inr \<lparr>response_text = [], response_duration = upload_elapsed e,
                response_status = asc ''no_text''\<rparr>"
  using assms by (simp add: recognize_audio_def build_response_list Let_def)

lemma process_stream_hello:
  "process_stream (Exited 0 (asc ''hello world'') []) = Inr [asc ''hello world'']"
  by (simp add: process_stream_def sanitizer_defs)

text \<open>
  C1. An upload on which the engine exits with code 0 and prints \<open>hello world\<close>: the
  sanitizer returns that one sentence, and the operation ends with the HTTP error 500
  instead of a reply with status \<open>success\<close>, because \<^verbatim>\<open>strip\<close> is called on the list.
\<close>

theorem recognize_audio_hello_fails:
  "process_stream (upload_engine hello_upload) = Inr [asc ''hello world'']
   \<and> recognize_audio {} hello_upload = (Inl (HTTPException 500), {})"
proof -
  have p: "process_stream (upload_engine hello_upload) = Inr [asc ''hello world'']"
    by (simp add: hello_upload_def process_stream_hello)
  have s: "upload_save hello_upload = WriteOk"
    by (simp add: hello_upload_def)
  have "recognize_audio {} hello_upload = (Inl (HTTPException 500), {})"
    using p s by (simp add: recognize_audio_def build_response_list Let_def)
  with p show ?thesis by simp
qed

lemma clean_blank_audio_token: "clean_whisper_output blank_audio_token = []"
  by (simp add: blank_audio_token_def sanitizer_defs)

text \<open>
  C4, as the claim states it, fails for the upload operation: when the engine prints
  exactly the blank-audio token, the reply has the empty text and the status
  \<open>no_text\<close>, not the fixed blank-audio message.
\<close>

theorem upload_blank_audio_counterexample:
  "recognize_audio {} blank_upload =
     (Inr \<lparr>response_text = [], response_duration = 1, response_status = asc ''no_text''\<rparr>, {})
   \<and> [] \<noteq> blank_audio_message"
proof -
  have p: "process_stream (upload_engine blank_upload) = Inr []"
    using clean_blank_audio_token
    by (simp add: blank_upload_def process_stream_def blank_audio_token_def strip_def
        isspace_def asc_def)
  have s: "upload_save blank_upload = WriteOk" "upload_elapsed blank_upload = 1"
    by (simp_all add: blank_upload_def)
  have "recognize_audio {} blank_upload =
     (Inr \<lparr>response_text = [], response_duration = 1, response_status = asc ''no_text''\<rparr>, {})"
    using p s by (simp add: recognize_audio_def build_response_list Let_def)
  then show ?thesis by (simp add: blank_audio_message_def)
qed

text \<open>
  C4, amended. When the trimmed output of a successful engine run is exactly the
  blank-audio token, \<^verbatim>\<open>VoiceService.process_audio\<close> (the single-shot call behind
  \<^verbatim>\<open>listen\<close>) returns the fixed blank-audio message without cleaning the text; the
  upload operation calls \<^verbatim>\<open>process_stream\<close> instead, whose sanitizer removes the token,
  and replies with the empty text and the status \<open>no_text\<close>.
\<close>

theorem blank_audio_token_handling:
  assumes "strip out = blank_audio_token"
      and "wav_file \<in> fs"
      and "path_join (path_join whisper_path (asc ''models'')) model_name \<in> fs"
  shows "process_audio fs wav_file model_name (Exited 0 out err) = Inr blank_audio_message
       \<and> process_stream (Exited 0 out err) = Inr []
       \<and> fst (recognize_audio fs'
                \<lparr>upload_time = t, upload_save = WriteOk,
                 upload_engine = Exited 0 out err, upload_elapsed = d\<rparr>)
           = Inr \<lparr>response_text = [], response_duration = d,
                  response_status = asc ''no_text''\<rparr>"
proof -
  have ne: "blank_audio_token \<noteq> []"
    by (simp add: blank_audio_token_def asc_def)
  have a: "process_audio fs wav_file model_name (Exited 0 out err) = Inr blank_audio_message"
    using assms ne by (simp add: process_audio_def Let_def)
  have b: "process_stream (Exited 0 out err) = Inr []"
    using assms(1) by (simp add: process_stream_def clean_blank_audio_token)
  have c: "fst (recognize_audio fs'
                \<lparr>upload_time = t, upload_save = WriteOk,
                 upload_engine = Exited 0 out err, upload_elapsed = d\<rparr>)
           = Inr \<lparr>response_text = [], response_duration = d,
                  response_status = asc ''no_text''\<rparr>"
    using recognize_audio_no_sentences [of "\<lparr>upload_time = t, upload_save = WriteOk,
                 upload_engine = Exited 0 out err, upload_elapsed = d\<rparr>" fs'] b
    by simp
  from a b c show ?thesis by simp
qed

theorem blank_audio_token_handling_witness:
  "strip (asc ''[BLANK_AUDIO]'' @ [10]) = blank_audio_token
   \<and> process_audio {asc ''a.wav'', asc ''/home/huiyu/whisper.cpp/models/ggml-tiny.bin''}
        (asc ''a.wav'') (asc ''ggml-tiny.bin'') (Exited 0 (asc ''[BLANK_AUDIO]'' @ [10]) [])
       = Inr blank_audio_message
   \<and> process_stream (Exited 0 (asc ''[BLANK_AUDIO]'' @ [10]) []) = Inr []"
proof -
  have s: "strip (asc ''[BLANK_AUDIO]'' @ [10]) = blank_audio_token"
    by (simp add: strip_def isspace_def asc_def blank_audio_token_def)
  have w: "asc ''a.wav''
      \<in> {asc ''a.wav'', asc ''/home/huiyu/whisper.cpp/models/ggml-tiny.bin''}"
    by simp
  have m: "path_join (path_join whisper_path (asc ''models'')) (asc ''ggml-tiny.bin'')
      \<in> {asc ''a.wav'', asc ''/home/huiyu/whisper.cpp/models/ggml-tiny.bin''}"
    by (simp add: path_join_def whisper_path_def asc_def)
  note t = blank_audio_token_handling [OF s w m, of "[]" "{}" 0 1]
  from t have t1: "process_audio {asc ''a.wav'', asc ''/home/huiyu/whisper.cpp/models/ggml-tiny.bin''}
        (asc ''a.wav'') (asc ''ggml-tiny.bin'') (Exited 0 (asc ''[BLANK_AUDIO]'' @ [10]) [])
       = Inr blank_audio_message"
    by (rule conjunct1)
  from t have t2: "process_stream (Exited 0 (asc ''[BLANK_AUDIO]'' @ [10]) []) = Inr []"
    by (rule conjunct2 [THEN conjunct1])
  show ?thesis by (intro conjI s t1 t2)
qed

section \<open>The streaming session: properties\<close>

lemmas frame_defs =
  decode_frame_def frombuffer_int32_def frombuffer_int16_def mean_abs_def np_abs_def
  declared_duration_def true_divide_def MIN_DURATION_def


lemma not_float_ge_iff: "\<not> float_ge x (Finite c) \<longleftrightarrow> float_lt x (Finite c) \<or> x = NaN"
  by (cases x) auto

lemma int32s_short:
  assumes "length buf < 8" and "length buf mod 4 = 0"
  shows "length (int32s buf) < 2"
proof -
  from assms have "length buf = 0 \<or> length buf = 4" by presburger
  then show ?thesis
  proof
    assume "length buf = 0"
    then show ?thesis by simp
  next
    assume "length buf = 4"
    then obtain a b c d where "buf = [a, b, c, d]"
      by (auto simp: length_Suc_conv numeral_eq_Suc)
    then show ?thesis by simp
  qed
qed

lemma decode_frame_short:
  assumes "length data < 8"
  shows "decode_frame data = Inl ValueError"
proof (cases "length data mod 4 = 0")
  case False
  with assms show ?thesis by (simp add: decode_frame_def frombuffer_int32_def)
next
  case True
  with assms have "length (int32s data) < 2" by (rule int32s_short)
  then have "int32s data = [] \<or> (\<exists>x. int32s data = [x])"
    by (cases "int32s data") (auto simp: length_Suc_conv)
  with assms True show ?thesis
    by (auto simp: decode_frame_def frombuffer_int32_def)
qed

lemma pass_accepts:
  assumes "decode_frame data = Inr f"
      and "\<not> float_lt (mean_abs rnd (audio_data f)) (Finite 500)"
  shows "ws_process_audio_pass rnd s fs e (Bytes data) =
           (let s1 = \<lparr>audio_buffer = audio_buffer s @ [audio_data f],
                      buffer_duration =
                        float_add rnd (buffer_duration s) (declared_duration rnd f),
                      held_frames = held_frames s @ [f]\<rparr>
            in if float_ge (buffer_duration s1) MIN_DURATION then flush s1 fs e
               else \<lparr>ctl = Continue, after = s1, sent = [], invoked = [], disk = fs\<rparr>)"
  using assms by (simp add: ws_process_audio_pass_def Let_def)

lemma pass_rejects:
  assumes "decode_frame data = Inr f"
      and "float_lt (mean_abs rnd (audio_data f)) (Finite 500)"
  shows "ws_process_audio_pass rnd s fs e (Bytes data) =
           \<lparr>ctl = Continue, after = s, sent = [], invoked = [], disk = fs\<rparr>"
  using assms by (simp add: ws_process_audio_pass_def)

lemma decode_one_second_frame:
  "decode_frame one_second_frame = Inr \<lparr>sample_rate = 1, num_samples = 1, audio_data = [1000]\<rparr>"
  by (simp add: one_second_frame_def frame_defs)

lemma decode_two_second_frame:
  "decode_frame two_second_frame = Inr \<lparr>sample_rate = 1, num_samples = 2, audio_data = [1000]\<rparr>"
  by (simp add: two_second_frame_def frame_defs)

lemma decode_quiet_frame:
  "decode_frame quiet_frame =
     Inr \<lparr>sample_rate = 16000, num_samples = 8000, audio_data = [100]\<rparr>"
  by (simp add: quiet_frame_def frame_defs)

lemma decode_empty_two_second_frame:
  "decode_frame empty_two_second_frame =
     Inr \<lparr>sample_rate = 1, num_samples = 2, audio_data = []\<rparr>"
  by (simp add: empty_two_second_frame_def frame_defs)

lemma decode_zero_header_frame:
  "decode_frame zero_header_frame =
     Inr \<lparr>sample_rate = 0, num_samples = 0, audio_data = [1000]\<rparr>"
  by (simp add: zero_header_frame_def frame_defs)

lemma mean_abs_1000: "mean_abs id [1000] = Finite 1000"
  by (simp add: mean_abs_def np_abs_def)

lemma pass_two_second_frame:
  assumes "tofile e = WriteOk"
  shows "ws_process_audio_pass id initial_session fs e (Bytes two_second_frame) =
           \<lparr>ctl = Continue, after = initial_session,
            sent = flush_replies (process_stream (engine e)),
            invoked = [(temp_file_name (clock e), [1000])],
            disk = fs - {temp_file_name (clock e)}\<rparr>"
  using assms pass_accepts [OF decode_two_second_frame, of id initial_session fs e]
  by (simp add: mean_abs_1000 declared_duration_def true_divide_def MIN_DURATION_def
      initial_session_def flush_def Let_def)

text \<open>
  C2, as the claim states it, fails: after a message of three bytes the loop is not
  awaiting the next frame. It has ended with \<^verbatim>\<open>ValueError\<close>, and the two-second frame
  behind it, which alone would cause an engine call, is never read.
\<close>

theorem short_message_counterexample:
  "ctl (ws_process_audio id initial_session {}
          [(Bytes [0, 0, 0], working_env), (Bytes two_second_frame, working_env)])
     = Raised ValueError
   \<and> invoked (ws_process_audio id initial_session {}
          [(Bytes [0, 0, 0], working_env), (Bytes two_second_frame, working_env)]) = []
   \<and> length (invoked (ws_process_audio id initial_session {}
          [(Bytes two_second_frame, working_env)])) = 1"
proof -
  have w: "tofile working_env = WriteOk" by (simp add: working_env_def)
  have a: "ws_process_audio id initial_session {}
          [(Bytes [0, 0, 0], working_env), (Bytes two_second_frame, working_env)]
     = \<lparr>ctl = Raised ValueError, after = initial_session, sent = [], invoked = [], disk = {}\<rparr>"
    by (simp add: ws_process_audio_pass_def decode_frame_def frombuffer_int32_def)
  have b: "length (invoked (ws_process_audio id initial_session {}
          [(Bytes two_second_frame, working_env)])) = 1"
    by (simp add: pass_two_second_frame [OF w] Let_def)
  from a b show ?thesis by simp
qed

text \<open>
  C2, amended. A message of fewer than 8 bytes makes the decoding of the header raise
  \<^verbatim>\<open>ValueError\<close>. No handler of the loop body catches it: the loop ends there (the
  handler around it logs the error and the session is closed), whatever messages
  follow. No reply is sent, the engine is not called, and the pending buffer and the
  accumulated duration are as they were.
\<close>

theorem short_message_ends_loop:
  assumes "length data < 8"
  shows "ws_process_audio rnd s fs ((Bytes data, e) # rest) =
           \<lparr>ctl = Raised ValueError, after = s, sent = [], invoked = [], disk = fs\<rparr>"
  using decode_frame_short [OF assms] by (simp add: ws_process_audio_pass_def)

theorem short_message_ends_loop_witness:
  "length [0, 0, 0 :: byte] < 8
   \<and> ws_process_audio id initial_session {}
        ((Bytes [0, 0, 0], working_env) # [(Bytes two_second_frame, working_env)])
      = \<lparr>ctl = Raised ValueError, after = initial_session, sent = [], invoked = [], disk = {}\<rparr>"
proof -
  have l: "length [0, 0, 0 :: byte] < 8" by simp
  show ?thesis
    by (intro conjI l short_message_ends_loop [OF l])
qed

text \<open>
  C5. A decoded frame whose mean absolute amplitude, as the loop computes it, is below
  500 changes nothing: the pass ends at the top of the loop with the session variables
  as they were, no reply sent, no engine call, and the file system untouched.
\<close>

theorem quiet_frame_leaves_session_unchanged:
  assumes "decode_frame data = Inr f"
      and "float_lt (mean_abs rnd (audio_data f)) (Finite 500)"
  shows "ws_process_audio_pass rnd s fs e (Bytes data) =
           \<lparr>ctl = Continue, after = s, sent = [], invoked = [], disk = fs\<rparr>"
  using assms by (rule pass_rejects)

theorem quiet_frame_leaves_session_unchanged_witness:
  "decode_frame quiet_frame = Inr \<lparr>sample_rate = 16000, num_samples = 8000, audio_data = [100]\<rparr>
   \<and> float_lt (mean_abs id (audio_data
          \<lparr>sample_rate = 16000, num_samples = 8000, audio_data = [100]\<rparr>)) (Finite 500)
   \<and> ws_process_audio_pass id initial_session {} working_env (Bytes quiet_frame) =
           \<lparr>ctl = Continue, after = initial_session, sent = [], invoked = [], disk = {}\<rparr>"
proof -
  have q: "float_lt (mean_abs id (audio_data
          \<lparr>sample_rate = 16000, num_samples = 8000, audio_data = [100]\<rparr>)) (Finite 500)"
    by (simp add: mean_abs_def np_abs_def)
  show ?thesis
    by (intro conjI decode_quiet_frame q
        quiet_frame_leaves_session_unchanged [OF decode_quiet_frame q])
qed

text \<open>
  C3, as the claim states it, fails for a frame that declares two seconds and carries
  no sample. Its mean is NaN, which is not below 500, so the frame is accepted and the
  duration reaches the minimum; the statistics of the empty concatenation then raise
  \<^verbatim>\<open>ValueError\<close>: the engine is not called and nothing is reset.
\<close>

theorem empty_frame_counterexample:
  "decode_frame empty_two_second_frame
     = Inr \<lparr>sample_rate = 1, num_samples = 2, audio_data = []\<rparr>
   \<and> \<not> float_lt (mean_abs id []) (Finite 500)
   \<and> ws_process_audio_pass id initial_session {} working_env (Bytes empty_two_second_frame)
     = \<lparr>ctl = Raised ValueError,
        after = \<lparr>audio_buffer = [[]], buffer_duration = Finite 2,
                 held_frames = [\<lparr>sample_rate = 1, num_samples = 2, audio_data = []\<rparr>]\<rparr>,
        sent = [], invoked = [], disk = {}\<rparr>"
proof -
  have m: "\<not> float_lt (mean_abs id []) (Finite 500)"
    by (simp add: mean_abs_def)
  have m': "\<not> float_lt (mean_abs id (audio_data
              \<lparr>sample_rate = 1, num_samples = 2, audio_data = []\<rparr>)) (Finite 500)"
    using m by simp
  have "ws_process_audio_pass id initial_session {} working_env (Bytes empty_two_second_frame)
     = \<lparr>ctl = Raised ValueError,
        after = \<lparr>audio_buffer = [[]], buffer_duration = Finite 2,
                 held_frames = [\<lparr>sample_rate = 1, num_samples = 2, audio_data = []\<rparr>]\<rparr>,
        sent = [], invoked = [], disk = {}\<rparr>"
    using pass_accepts [OF decode_empty_two_second_frame m', of initial_session "{}" working_env]
    by (simp add: declared_duration_def true_divide_def MIN_DURATION_def
        initial_session_def flush_def Let_def)
  with m show ?thesis by (simp add: decode_empty_two_second_frame)
qed

text \<open>
  C3, amended. When an accepted frame brings the accumulated duration, as the loop
  computes it, to 2.0 or more, the buffer with that frame holds at least one sample and
  the temporary file is written, then the pass calls the engine exactly once and ends
  at the top of the loop with the pending buffer empty and the duration zero, whatever
  the engine does.
\<close>

theorem threshold_flush_once_and_reset:
  assumes "decode_frame data = Inr f"
      and "\<not> float_lt (mean_abs rnd (audio_data f)) (Finite 500)"
      and "float_ge (float_add rnd (buffer_duration s) (declared_duration rnd f)) MIN_DURATION"
      and "concat (audio_buffer s) @ audio_data f \<noteq> []"
      and "tofile e = WriteOk"
  shows "length (invoked (ws_process_audio_pass rnd s fs e (Bytes data))) = 1
       \<and> audio_buffer (after (ws_process_audio_pass rnd s fs e (Bytes data))) = []
       \<and> buffer_duration (after (ws_process_audio_pass rnd s fs e (Bytes data))) = Finite 0
       \<and> ctl (ws_process_audio_pass rnd s fs e (Bytes data)) = Continue"
  using assms by (simp add: pass_accepts flush_def initial_session_def Let_def)

theorem threshold_flush_once_and_reset_witness:
  "decode_frame two_second_frame
     = Inr \<lparr>sample_rate = 1, num_samples = 2, audio_data = [1000]\<rparr>
   \<and> tofile failing_env = WriteOk
   \<and> (length (invoked (ws_process_audio_pass id initial_session {} failing_env
                 (Bytes two_second_frame))) = 1
      \<and> audio_buffer (after (ws_process_audio_pass id initial_session {} failing_env
                 (Bytes two_second_frame))) = []
      \<and> buffer_duration (after (ws_process_audio_pass id initial_session {} failing_env
                 (Bytes two_second_frame))) = Finite 0
      \<and> ctl (ws_process_audio_pass id initial_session {} failing_env
                 (Bytes two_second_frame)) = Continue)"
proof -
  let ?f = "\<lparr>sample_rate = 1, num_samples = 2, audio_data = [1000]\<rparr>"
  have m: "\<not> float_lt (mean_abs id (audio_data ?f)) (Finite 500)"
    by (simp add: mean_abs_1000)
  have g: "float_ge (float_add id (buffer_duration initial_session) (declared_duration id ?f))
             MIN_DURATION"
    by (simp add: initial_session_def declared_duration_def true_divide_def MIN_DURATION_def)
  have n: "concat (audio_buffer initial_session) @ audio_data ?f \<noteq> []"
    by simp
  have w: "tofile failing_env = WriteOk"
    by (simp add: failing_env_def)
  show ?thesis
    by (intro conjI decode_two_second_frame w
        threshold_flush_once_and_reset [OF decode_two_second_frame m g n w, THEN conjunct1]
        threshold_flush_once_and_reset [OF decode_two_second_frame m g n w,
          THEN conjunct2, THEN conjunct1]
        threshold_flush_once_and_reset [OF decode_two_second_frame m g n w,
          THEN conjunct2, THEN conjunct2, THEN conjunct1]
        threshold_flush_once_and_reset [OF decode_two_second_frame m g n w,
          THEN conjunct2, THEN conjunct2, THEN conjunct2])
qed

text \<open>
  C6, at a failing input: a flush on a full disk. \<^verbatim>\<open>tofile\<close> raises after it has
  created the temporary file; the call stands before the \<^verbatim>\<open>try\<close> whose \<^verbatim>\<open>finally\<close>
  clause removes the file, so the loop ends with the file still on disk.
\<close>

theorem full_disk_leaves_temp_file:
  "ctl (ws_process_audio_pass id initial_session {} full_disk_env (Bytes two_second_frame))
     = Raised OSError
   \<and> temp_file_name (clock full_disk_env)
       \<in> disk (ws_process_audio_pass id initial_session {} full_disk_env
                 (Bytes two_second_frame))"
proof -
  let ?f = "\<lparr>sample_rate = 1, num_samples = 2, audio_data = [1000]\<rparr>"
  have m: "\<not> float_lt (mean_abs id (audio_data ?f)) (Finite 500)"
    by (simp add: mean_abs_1000)
  show ?thesis
    using pass_accepts [OF decode_two_second_frame m, of initial_session "{}" full_disk_env]
    by (simp add: declared_duration_def true_divide_def MIN_DURATION_def
        initial_session_def flush_def full_disk_env_def Let_def)
qed

text \<open>
  C7. When the engine exits with a nonzero code during a flush, the call raises with
  the captured standard error in its message and is made once only; the pass sends
  exactly one reply, with status \<open>error\<close> and that message, removes the temporary file,
  resets the session variables and ends at the top of the loop.
\<close>

theorem engine_failure_is_reported_and_loop_continues:
  assumes "decode_frame data = Inr f"
      and "\<not> float_lt (mean_abs rnd (audio_data f)) (Finite 500)"
      and "float_ge (float_add rnd (buffer_duration s) (declared_duration rnd f)) MIN_DURATION"
      and "concat (audio_buffer s) @ audio_data f \<noteq> []"
      and "tofile e = WriteOk"
      and "engine e = Exited returncode out err"
      and "returncode \<noteq> 0"
  shows "process_stream (engine e) = Inl (whisper_failed @ err)
       \<and> ws_process_audio_pass rnd s fs e (Bytes data) =
           \<lparr>ctl = Continue, after = initial_session,
            sent = [\<lparr>reply_status = asc ''error'',
                     reply_text = processing_error @ whisper_failed @ err\<rparr>],
            invoked = [(temp_file_name (clock e), concat (audio_buffer s) @ audio_data f)],
            disk = fs - {temp_file_name (clock e)}\<rparr>"
  using assms
  by (simp add: pass_accepts flush_def flush_replies_def process_stream_def Let_def)

theorem engine_failure_is_reported_and_loop_continues_witness:
  "decode_frame two_second_frame
     = Inr \<lparr>sample_rate = 1, num_samples = 2, audio_data = [1000]\<rparr>
   \<and> engine failing_env = Exited 1 [] (asc ''no model'')
   \<and> ws_process_audio_pass id initial_session {} failing_env (Bytes two_second_frame) =
           \<lparr>ctl = Continue, after = initial_session,
            sent = [\<lparr>reply_status = asc ''error'',
                     reply_text = processing_error @ whisper_failed @ asc ''no model''\<rparr>],
            invoked = [(temp_file_name (clock failing_env),
                        concat (audio_buffer initial_session)
                          @ audio_data \<lparr>sample_rate = 1, num_samples = 2, audio_data = [1000]\<rparr>)],
            disk = {} - {temp_file_name (clock failing_env)}\<rparr>"
proof -
  let ?f = "\<lparr>sample_rate = 1, num_samples = 2, audio_data = [1000]\<rparr>"
  have m: "\<not> float_lt (mean_abs id (audio_data ?f)) (Finite 500)"
    by (simp add: mean_abs_1000)
  have g: "float_ge (float_add id (buffer_duration initial_session) (declared_duration id ?f))
             MIN_DURATION"
    by (simp add: initial_session_def declared_duration_def true_divide_def MIN_DURATION_def)
  have n: "concat (audio_buffer initial_session) @ audio_data ?f \<noteq> []"
    by simp
  have w: "tofile failing_env = WriteOk"
    by (simp add: failing_env_def)
  have x: "engine failing_env = Exited 1 [] (asc ''no model'')"
    by (simp add: failing_env_def)
  have c: "(1 :: int) \<noteq> 0" by simp
  show ?thesis
    by (intro conjI decode_two_second_frame x
        engine_failure_is_reported_and_loop_continues
          [OF decode_two_second_frame m g n w x c, THEN conjunct2])
qed








lemma session_inv_initial: "session_inv rnd initial_session"
  by (simp add: session_inv_def initial_session_def held_duration_def MIN_DURATION_def)

lemma flush_after:
  "ctl (flush s fs e) = Continue \<Longrightarrow> after (flush s fs e) = initial_session"
  by (auto simp: flush_def Let_def split: write_result.splits if_splits)

lemma session_inv_pass:
  assumes "session_inv rnd s"
      and "ctl (ws_process_audio_pass rnd s fs e ev) = Continue"
  shows "session_inv rnd (after (ws_process_audio_pass rnd s fs e ev))"
proof (cases ev)
  case Disconnect
  with assms show ?thesis by (simp add: ws_process_audio_pass_def)
next
  case (Bytes data)
  show ?thesis
  proof (cases "decode_frame data")
    case (Inl err)
    with assms Bytes show ?thesis by (simp add: ws_process_audio_pass_def)
  next
    case (Inr f)
    show ?thesis
    proof (cases "float_lt (mean_abs rnd (audio_data f)) (Finite 500)")
      case True
      with assms Bytes Inr show ?thesis by (simp add: ws_process_audio_pass_def)
    next
      case False
      let ?d = "float_add rnd (buffer_duration s) (declared_duration rnd f)"
      let ?s1 = "\<lparr>audio_buffer = audio_buffer s @ [audio_data f],
                  buffer_duration = ?d, held_frames = held_frames s @ [f]\<rparr>"
      have p: "ws_process_audio_pass rnd s fs e (Bytes data) =
                 (if float_ge ?d MIN_DURATION then flush ?s1 fs e
                  else \<lparr>ctl = Continue, after = ?s1, sent = [], invoked = [], disk = fs\<rparr>)"
        using pass_accepts [OF Inr False] by (simp add: Let_def)
      show ?thesis
      proof (cases "float_ge ?d MIN_DURATION")
        case True
        with p assms(2) Bytes
        have "after (ws_process_audio_pass rnd s fs e ev) = initial_session"
          by (simp add: flush_after)
        then show ?thesis by (simp add: session_inv_initial)
      next
        case ge: False
        have "session_inv rnd ?s1"
          using assms(1) ge
          by (simp add: session_inv_def held_duration_def MIN_DURATION_def not_float_ge_iff)
        with p ge Bytes show ?thesis by simp
      qed
    qed
  qed
qed

lemma session_inv_loop:
  "session_inv rnd s \<Longrightarrow> ctl (ws_process_audio rnd s fs evs) = Continue
   \<Longrightarrow> session_inv rnd (after (ws_process_audio rnd s fs evs))"
proof (induction evs arbitrary: s fs)
  case Nil
  then show ?case by simp
next
  case (Cons p evs)
  obtain ev e where p: "p = (ev, e)" by (cases p)
  let ?r = "ws_process_audio_pass rnd s fs e ev"
  show ?case
  proof (cases "ctl ?r")
    case Continue
    have i: "session_inv rnd (after ?r)"
      using Cons.prems(1) Continue by (rule session_inv_pass)
    have c: "ctl (ws_process_audio rnd (after ?r) (disk ?r) evs) = Continue"
      using Cons.prems(2) p Continue by (simp add: Let_def)
    show ?thesis
      using Cons.IH [OF i c] p Continue by (simp add: Let_def)
  next
    case Break
    with Cons.prems(2) p show ?thesis by (simp add: Let_def)
  next
    case (Raised err)
    with Cons.prems(2) p show ?thesis by (simp add: Let_def)
  qed
qed

text \<open>
  C10, as the claim states it, fails for a loud frame whose header declares rate 0
  and count 0: its declared duration is \<open>0 / 0\<close>, NaN. The frame is accepted, NaN is
  not at least 2.0, so the loop awaits the next message with a duration that is not
  below 2.0.
\<close>

theorem zero_header_counterexample:
  "ctl (ws_process_audio id initial_session {} [(Bytes zero_header_frame, working_env)])
     = Continue
   \<and> buffer_duration (after (ws_process_audio id initial_session {}
        [(Bytes zero_header_frame, working_env)])) = NaN
   \<and> \<not> float_lt (buffer_duration (after (ws_process_audio id initial_session {}
        [(Bytes zero_header_frame, working_env)]))) MIN_DURATION"
proof -
  let ?f = "\<lparr>sample_rate = 0, num_samples = 0, audio_data = [1000]\<rparr>"
  have m: "\<not> float_lt (mean_abs id (audio_data ?f)) (Finite 500)"
    by (simp add: mean_abs_1000)
  show ?thesis
    using pass_accepts [OF decode_zero_header_frame m, of initial_session "{}" working_env]
    by (simp add: declared_duration_def true_divide_def MIN_DURATION_def
        initial_session_def Let_def)
qed

text \<open>
  C10, amended. Whenever the loop, started with an empty buffer, awaits the next
  message, the accumulated duration is below 2.0 or is NaN, it equals the sum, added
  from the left, of count / rate over the frames held in the pending buffer, and the
  buffer holds the sample arrays of exactly those frames in order.
\<close>

theorem awaiting_session_invariant:
  assumes "ctl (ws_process_audio rnd initial_session fs evs) = Continue"
  shows "session_inv rnd (after (ws_process_audio rnd initial_session fs evs))"
  using session_inv_initial assms by (rule session_inv_loop)

theorem awaiting_session_invariant_witness:
  "ctl (ws_process_audio id initial_session {}
          [(Bytes quiet_frame, working_env), (Bytes one_second_frame, working_env)]) = Continue
   \<and> session_inv id (after (ws_process_audio id initial_session {}
          [(Bytes quiet_frame, working_env), (Bytes one_second_frame, working_env)]))
   \<and> audio_buffer (after (ws_process_audio id initial_session {}
          [(Bytes quiet_frame, working_env), (Bytes one_second_frame, working_env)])) = [[1000]]"
proof -
  let ?f = "\<lparr>sample_rate = 1, num_samples = 1, audio_data = [1000]\<rparr>"
  have q: "float_lt (mean_abs id (audio_data
          \<lparr>sample_rate = 16000, num_samples = 8000, audio_data = [100]\<rparr>)) (Finite 500)"
    by (simp add: mean_abs_def np_abs_def)
  have m: "\<not> float_lt (mean_abs id (audio_data ?f)) (Finite 500)"
    by (simp add: mean_abs_1000)
  have q1: "ws_process_audio_pass id initial_session {} working_env (Bytes quiet_frame)
        = \<lparr>ctl = Continue, after = initial_session, sent = [], invoked = [], disk = {}\<rparr>"
    using decode_quiet_frame q by (rule pass_rejects)
  have q2: "ws_process_audio_pass id initial_session {} working_env (Bytes one_second_frame)
        = \<lparr>ctl = Continue,
           after = \<lparr>audio_buffer = [[1000]], buffer_duration = Finite 1, held_frames = [?f]\<rparr>,
           sent = [], invoked = [], disk = {}\<rparr>"
    using pass_accepts [OF decode_one_second_frame m, of initial_session "{}" working_env]
    by (simp add: declared_duration_def true_divide_def MIN_DURATION_def initial_session_def
        Let_def)
  have r: "ws_process_audio id initial_session {}
          [(Bytes quiet_frame, working_env), (Bytes one_second_frame, working_env)]
        = \<lparr>ctl = Continue,
           after = \<lparr>audio_buffer = [[1000]], buffer_duration = Finite 1, held_frames = [?f]\<rparr>,
           sent = [], invoked = [], disk = {}\<rparr>"
    by (simp add: q1 q2 Let_def)
  have c: "ctl (ws_process_audio id initial_session {}
          [(Bytes quiet_frame, working_env), (Bytes one_second_frame, working_env)]) = Continue"
    by (simp only: r outcome.simps)
  have b: "audio_buffer (after (ws_process_audio id initial_session {}
          [(Bytes quiet_frame, working_env), (Bytes one_second_frame, working_env)])) = [[1000]]"
    by (simp only: r outcome.simps session.simps)
  show ?thesis
    by (intro conjI c b awaiting_session_invariant [OF c])
qed

section \<open>Further properties\<close>

text \<open>
  The upload operation removes its temporary file on every path: after a reply, after
  an engine failure and after a failed save.
\<close>

theorem recognize_audio_removes_temp_file:
  "temp_file_name (upload_time e) \<notin> snd (recognize_audio fs e)"
  by (simp add: recognize_audio_def Let_def split: write_result.splits)

text \<open>
  A flush that has written its temporary file removes it again, whatever the engine
  does.
\<close>

theorem flush_removes_temp_file:
  assumes "tofile e = WriteOk"
      and "concat (audio_buffer s) \<noteq> []"
  shows "temp_file_name (clock e) \<notin> disk (flush s fs e)"
  using assms by (auto simp: flush_def Let_def)

theorem flush_removes_temp_file_witness:
  "tofile failing_env = WriteOk
   \<and> concat (audio_buffer \<lparr>audio_buffer = [[1000]], buffer_duration = Finite 2,
                            held_frames = []\<rparr>) \<noteq> []
   \<and> temp_file_name (clock failing_env)
       \<notin> disk (flush \<lparr>audio_buffer = [[1000]], buffer_duration = Finite 2, held_frames = []\<rparr>
                  {temp_file_name (clock failing_env)} failing_env)"
proof -
  have w: "tofile failing_env = WriteOk"
    by (simp add: failing_env_def)
  have n: "concat (audio_buffer \<lparr>audio_buffer = [[1000]], buffer_duration = Finite 2,
                            held_frames = []\<rparr>) \<noteq> []"
    by simp
  show ?thesis
    by (intro conjI w n flush_removes_temp_file [OF w n])
qed

text \<open>
  The sanitizer leaves a clean sentence as it is and removes a bracketed token.
\<close>

theorem clean_whisper_output_examples:
  "clean_whisper_output (asc ''hello world'') = [asc ''hello world'']
   \<and> clean_whisper_output (asc ''[BLANK_AUDIO] hello.'') = [asc ''hello'']"
  by (simp add: sanitizer_defs)

end
